theory Spec2Isabelle
  imports Main "HOL-Library.AList"
begin

section \<open>Python text\<close>

text \<open>
  The service is Python. A Python \<open>str\<close> is modelled by \<^typ>\<open>string\<close>: the texts
  whose code points are below 256, each \<^typ>\<open>char\<close> standing for the code point of the
  same number. The character classes below are CPython's on that range.
\<close>

definition code :: "char \<Rightarrow> nat" where
  "code c = of_char c"

text \<open>\<open>str.isspace\<close>, the regular expression class \<open>\s\<close> and the blanks that
  \<open>str.strip()\<close> removes: TAB..CR, FS..US, space, NEL and the no-break space.\<close>

definition is_space :: "char \<Rightarrow> bool" where
  "is_space c = (let n = code c in
     (9 \<le> n \<and> n \<le> 13) \<or> (28 \<le> n \<and> n \<le> 32) \<or> n = 133 \<or> n = 160)"

text \<open>The blanks that \<open>int()\<close> skips around a number: the same without FS..US.\<close>

definition int_space :: "char \<Rightarrow> bool" where
  "int_space c = (let n = code c in (9 \<le> n \<and> n \<le> 13) \<or> n = 32 \<or> n = 133 \<or> n = 160)"

text \<open>The class \<open>\d\<close> and the digits \<open>int()\<close> reads: the decimal digits.\<close>

definition is_digit :: "char \<Rightarrow> bool" where
  "is_digit c = (let n = code c in 48 \<le> n \<and> n \<le> 57)"

text \<open>The class \<open>\w\<close>: \<open>str.isalnum\<close> or the underscore.\<close>

definition is_word :: "char \<Rightarrow> bool" where
  "is_word c = (let n = code c in
     (48 \<le> n \<and> n \<le> 57) \<or> (65 \<le> n \<and> n \<le> 90) \<or> n = 95 \<or> (97 \<le> n \<and> n \<le> 122)
     \<or> n = 170 \<or> n = 178 \<or> n = 179 \<or> n = 181 \<or> n = 185 \<or> n = 186
     \<or> (188 \<le> n \<and> n \<le> 190) \<or> (192 \<le> n \<and> n \<le> 214) \<or> (216 \<le> n \<and> n \<le> 246)
     \<or> 248 \<le> n)"



text \<open>\<open>str.strip()\<close> with no argument.\<close>

definition strip :: "string \<Rightarrow> string" where
  "strip s = rev (dropWhile is_space (rev (dropWhile is_space s)))"

text \<open>\<open>sub in s\<close> for two strings.\<close>

fun contains :: "string \<Rightarrow> string \<Rightarrow> bool" where
  "contains sub [] = (sub = [])"
| "contains sub (c # cs) = (take (length sub) (c # cs) = sub \<or> contains sub cs)"

text \<open>\<open>s.replace(" ", "")\<close>.\<close>

definition remove_spaces :: "string \<Rightarrow> string" where
  "remove_spaces s = filter (\<lambda>c. c \<noteq> CHR '' '') s"




subsection \<open>Reading an integer\<close>

text \<open>
  \<open>int(s)\<close> for a string: blanks around the number are skipped, one sign is allowed,
  then digits, with single underscores between digits. Anything else is a
  \<open>ValueError\<close>, here \<open>None\<close>. Python's integers are unbounded, and so is
  \<^typ>\<open>int\<close>; the limit CPython puts on the length of the digit string (4300 digits by
  default) is not modelled.
\<close>

definition digit_value :: "char \<Rightarrow> nat" where
  "digit_value c = code c - 48"

definition int_of_digits :: "string \<Rightarrow> int" where
  "int_of_digits ds = foldl (\<lambda>a c. 10 * a + int (digit_value c)) 0 ds"

fun digits_ok :: "string \<Rightarrow> bool" where
  "digits_ok [] = False"
| "digits_ok [c] = is_digit c"
| "digits_ok (c # d # r) =
     (is_digit c \<and> (if d = CHR ''_'' then digits_ok r else digits_ok (d # r)))"

definition unsigned_int :: "string \<Rightarrow> int option" where
  "unsigned_int b =
     (if digits_ok b then Some (int_of_digits (filter (\<lambda>c. c \<noteq> CHR ''_'') b)) else None)"

definition py_int :: "string \<Rightarrow> int option" where
  "py_int s =
     (case rev (dropWhile int_space (rev (dropWhile int_space s))) of
        [] \<Rightarrow> None
      | c # r \<Rightarrow>
          if c = CHR ''-'' then map_option uminus (unsigned_int r)
          else if c = CHR ''+'' then unsigned_int r
          else unsigned_int (c # r))"

section \<open>JSON values and \<open>json.loads\<close>\<close>

text \<open>
  What \<open>json.loads\<close> returns: \<open>None\<close>, a \<open>bool\<close>, an \<open>int\<close>, a \<open>float\<close>, a
  \<open>str\<close>, a \<open>list\<close> or a \<open>dict\<close>. A dict keeps its keys in the order of their first
  insertion, so it is an association list with distinct keys, and \<open>d[k] = v\<close> is
  \<^const>\<open>AList.update\<close>. A float is kept as the literal that denotes it: none of the code
  computes with one.
\<close>

datatype json =
    JNull
  | JBool bool
  | JInt int
  | JFloat string
  | JStr string
  | JArr "json list"
  | JObj "(string \<times> json) list"

type_synonym dict = "(string \<times> json) list"

definition json_ws :: "char \<Rightarrow> bool" where
  "json_ws c = (c = CHR '' '' \<or> code c = 9 \<or> code c = 10 \<or> code c = 13)"

definition skip_ws :: "string \<Rightarrow> string" where
  "skip_ws s = dropWhile json_ws s"

definition hex_value :: "char \<Rightarrow> nat option" where
  "hex_value c = (let n = code c in
     if 48 \<le> n \<and> n \<le> 57 then Some (n - 48)
     else if 65 \<le> n \<and> n \<le> 70 then Some (n - 55)
     else if 97 \<le> n \<and> n \<le> 102 then Some (n - 87)
     else None)"

definition hex4 :: "string \<Rightarrow> nat option" where
  "hex4 s =
     (case map hex_value (take 4 s) of
        [Some a, Some b, Some c, Some d] \<Rightarrow> Some (((a * 16 + b) * 16 + c) * 16 + d)
      | _ \<Rightarrow> None)"

definition unescape :: "char \<Rightarrow> char option" where
  "unescape e =
     (if e = CHR 0x22 then Some (CHR 0x22)
      else if e = CHR 0x5C then Some (CHR 0x5C)
      else if e = CHR ''/'' then Some (CHR ''/'')
      else if e = CHR ''b'' then Some (CHR 0x08)
      else if e = CHR ''f'' then Some (CHR 0x0C)
      else if e = CHR ''n'' then Some (CHR 0x0A)
      else if e = CHR ''r'' then Some (CHR 0x0D)
      else if e = CHR ''t'' then Some (CHR 0x09)
      else None)"

definition cons_result :: "char \<Rightarrow> (string \<times> string) option \<Rightarrow> (string \<times> string) option" where
  "cons_result c r = map_option (\<lambda>(t, rest). (c # t, rest)) r"

text \<open>
  The body of a string literal, after its opening quote: the decoded text and what
  follows the closing quote. A control character is refused (the decoder is strict), and
  so is an unknown escape. An escape \<open>\uXXXX\<close> above code point 255 denotes a character
  outside the modelled range and is refused as well.
\<close>

function scan_string :: "string \<Rightarrow> (string \<times> string) option" where
  "scan_string [] = None"
| "scan_string (c # cs) =
     (if c = CHR 0x22 then Some ([], cs)
      else if c = CHR 0x5C then
        (case cs of
           [] \<Rightarrow> None
         | e # es \<Rightarrow>
             if e = CHR ''u'' then
               (case hex4 es of
                  None \<Rightarrow> None
                | Some n \<Rightarrow> if n < 256 then cons_result (char_of n) (scan_string (drop 4 es)) else None)
             else
               (case unescape e of
                  None \<Rightarrow> None
                | Some d \<Rightarrow> cons_result d (scan_string es)))
      else if code c < 32 then None
      else cons_result c (scan_string cs))"
  by pat_completeness auto
termination
  by (relation "measure length") auto

text \<open>
  A number literal: \<open>-?(0|[1-9][0-9]*)(\.[0-9]+)?([eE][-+]?[0-9]+)?\<close>, the longest
  prefix that matches. With a fraction or an exponent it is a float, else an int.
\<close>

definition scan_int_part :: "string \<Rightarrow> (string \<times> string) option" where
  "scan_int_part s =
     (case s of
        [] \<Rightarrow> None
      | c # r \<Rightarrow>
          if c = CHR ''0'' then Some ([c], r)
          else if is_digit c then Some (c # takeWhile is_digit r, dropWhile is_digit r)
          else None)"

definition scan_frac :: "string \<Rightarrow> string \<times> string" where
  "scan_frac s =
     (case s of
        c # d # r \<Rightarrow>
          if c = CHR ''.'' \<and> is_digit d
          then (c # d # takeWhile is_digit r, dropWhile is_digit r) else ([], s)
      | _ \<Rightarrow> ([], s))"

definition scan_exp :: "string \<Rightarrow> string \<times> string" where
  "scan_exp s =
     (case s of
        c # r \<Rightarrow>
          if c = CHR ''e'' \<or> c = CHR ''E'' then
            (case r of
               d # r' \<Rightarrow>
                 if is_digit d then (c # d # takeWhile is_digit r', dropWhile is_digit r')
                 else if d = CHR ''+'' \<or> d = CHR ''-'' then
                   (case r' of
                      d' # r'' \<Rightarrow>
                        if is_digit d'
                        then (c # d # d' # takeWhile is_digit r'', dropWhile is_digit r'')
                        else ([], s)
                    | [] \<Rightarrow> ([], s))
                 else ([], s)
             | [] \<Rightarrow> ([], s))
          else ([], s)
      | [] \<Rightarrow> ([], s))"

definition scan_number :: "string \<Rightarrow> (json \<times> string) option" where
  "scan_number s =
     (let (sign, s1) = (case s of
                          c # r \<Rightarrow> if c = CHR ''-'' then ([c], r) else ([], s)
                        | [] \<Rightarrow> ([], s))
      in case scan_int_part s1 of
           None \<Rightarrow> None
         | Some (ds, r1) \<Rightarrow>
             (let (fr, r2) = scan_frac r1; (ex, r3) = scan_exp r2
              in if fr = [] \<and> ex = []
                 then Some (JInt (if sign = [] then int_of_digits ds
                                  else - int_of_digits ds), r3)
                 else Some (JFloat (sign @ ds @ fr @ ex), r3)))"

definition starts_with :: "string \<Rightarrow> string \<Rightarrow> bool" where
  "starts_with p s = (take (length p) s = p)"

text \<open>
  The recursive descent of the decoder. The first argument bounds the nesting depth;
  \<open>loads\<close> gives it more than the length of the text, which no nesting reaches.
  \<open>parse_members\<close> starts at the quote of a key, \<open>parse_elements\<close> at an element.
\<close>

fun parse_value :: "nat \<Rightarrow> string \<Rightarrow> (json \<times> string) option"
  and parse_members :: "nat \<Rightarrow> dict \<Rightarrow> string \<Rightarrow> (json \<times> string) option"
  and parse_elements :: "nat \<Rightarrow> json list \<Rightarrow> string \<Rightarrow> (json \<times> string) option"
where
  "parse_value 0 s = None"
| "parse_value (Suc n) s =
     (case s of
        [] \<Rightarrow> None
      | c # cs \<Rightarrow>
          if c = CHR 0x22 then map_option (\<lambda>(t, r). (JStr t, r)) (scan_string cs)
          else if c = CHR ''{'' then
            (case skip_ws cs of
               [] \<Rightarrow> None
             | d # r \<Rightarrow> if d = CHR ''}'' then Some (JObj [], r) else parse_members n [] (d # r))
          else if c = CHR ''['' then
            (case skip_ws cs of
               [] \<Rightarrow> None
             | d # r \<Rightarrow> if d = CHR '']'' then Some (JArr [], r) else parse_elements n [] (d # r))
          else if starts_with ''null'' s then Some (JNull, drop 4 s)
          else if starts_with ''true'' s then Some (JBool True, drop 4 s)
          else if starts_with ''false'' s then Some (JBool False, drop 5 s)
          else if starts_with ''NaN'' s then Some (JFloat ''NaN'', drop 3 s)
          else if starts_with ''Infinity'' s then Some (JFloat ''Infinity'', drop 8 s)
          else if starts_with ''-Infinity'' s then Some (JFloat ''-Infinity'', drop 9 s)
          else scan_number s)"
| "parse_members 0 acc s = None"
| "parse_members (Suc n) acc s =
     (case s of
        [] \<Rightarrow> None
      | c # cs \<Rightarrow>
          if c \<noteq> CHR 0x22 then None
          else
            (case scan_string cs of
               None \<Rightarrow> None
             | Some (k, r) \<Rightarrow>
                 (case skip_ws r of
                    [] \<Rightarrow> None
                  | c1 # r1 \<Rightarrow>
                      if c1 \<noteq> CHR '':'' then None
                      else
                        (case parse_value n (skip_ws r1) of
                           None \<Rightarrow> None
                         | Some (v, r2) \<Rightarrow>
                             (case skip_ws r2 of
                                [] \<Rightarrow> None
                              | c3 # r3 \<Rightarrow>
                                  if c3 = CHR '','' then
                                    parse_members n (AList.update k v acc) (skip_ws r3)
                                  else if c3 = CHR ''}'' then
                                    Some (JObj (AList.update k v acc), r3)
                                  else None)))))"
| "parse_elements 0 acc s = None"
| "parse_elements (Suc n) acc s =
     (case parse_value n s of
        None \<Rightarrow> None
      | Some (v, r) \<Rightarrow>
          (case skip_ws r of
             [] \<Rightarrow> None
           | c # r1 \<Rightarrow>
               if c = CHR '','' then parse_elements n (acc @ [v]) (skip_ws r1)
               else if c = CHR '']'' then Some (JArr (acc @ [v]), r1)
               else None))"

text \<open>\<open>json.loads(s)\<close> for a string \<open>s\<close>; \<open>None\<close> is \<open>JSONDecodeError\<close>.\<close>

definition loads :: "string \<Rightarrow> json option" where
  "loads s =
     (case parse_value (Suc (length s)) (skip_ws s) of
        None \<Rightarrow> None
      | Some (v, r) \<Rightarrow> if skip_ws r = [] then Some v else None)"

section \<open>Regular expressions\<close>

text \<open>
  The patterns of the service are sequences of character classes under greedy
  repetition, and the assertion \<open>\b\<close>. \<open>Rep p lo hi\<close> is the class \<open>p\<close> repeated at
  least \<open>lo\<close> and at most \<open>hi\<close> times (\<open>None\<close>: unbounded). The matcher is the
  backtracking one of \<open>re\<close>: a repetition takes as many characters as it can and gives
  them back one at a time until the rest of the pattern matches.
\<close>

datatype ritem = Rep "char \<Rightarrow> bool" nat "nat option" | WordBoundary

fun first_some :: "'a option list \<Rightarrow> 'a option" where
  "first_some [] = None"
| "first_some (None # xs) = first_some xs"
| "first_some (Some x # xs) = Some x"

text \<open>\<open>\b\<close> between the character before the position (if any) and the text after it.\<close>

definition at_boundary :: "char option \<Rightarrow> string \<Rightarrow> bool" where
  "at_boundary prev s =
     ((case prev of None \<Rightarrow> False | Some c \<Rightarrow> is_word c)
      \<noteq> (case s of [] \<Rightarrow> False | c # _ \<Rightarrow> is_word c))"

definition prev_after :: "char option \<Rightarrow> string \<Rightarrow> nat \<Rightarrow> char option" where
  "prev_after prev s n = (if n = 0 then prev else Some (s ! (n - 1)))"

definition max_count :: "(char \<Rightarrow> bool) \<Rightarrow> nat option \<Rightarrow> string \<Rightarrow> nat" where
  "max_count p hi s =
     (let run = length (takeWhile p s) in case hi of None \<Rightarrow> run | Some h \<Rightarrow> min h run)"

text \<open>\<open>match_here r prev s\<close>: the number of characters of \<open>s\<close> that the pattern \<open>r\<close>
  takes when it is matched at the start of \<open>s\<close>, \<open>prev\<close> being the character before.\<close>

function match_here :: "ritem list \<Rightarrow> char option \<Rightarrow> string \<Rightarrow> nat option" where
  "match_here [] prev s = Some 0"
| "match_here (WordBoundary # r) prev s =
     (if at_boundary prev s then match_here r prev s else None)"
| "match_here (Rep p lo hi # r) prev s =
     first_some
       (map (\<lambda>n. map_option (\<lambda>m. n + m) (match_here r (prev_after prev s n) (drop n s)))
            (rev [lo ..< Suc (max_count p hi s)]))"
  by pat_completeness auto
termination
  by (relation "measure (\<lambda>(r, prev, s). length r)") auto

text \<open>\<open>re.search(r, s)\<close>: the text of the leftmost match, \<open>m.group()\<close>.\<close>

fun search_from :: "ritem list \<Rightarrow> char option \<Rightarrow> string \<Rightarrow> string option" where
  "search_from r prev [] = map_option (\<lambda>n. []) (match_here r prev [])"
| "search_from r prev (c # cs) =
     (case match_here r prev (c # cs) of
        Some n \<Rightarrow> Some (take n (c # cs))
      | None \<Rightarrow> search_from r (Some c) cs)"

definition re_search :: "ritem list \<Rightarrow> string \<Rightarrow> string option" where
  "re_search r s = search_from r None s"

definition one :: "(char \<Rightarrow> bool) \<Rightarrow> ritem" where
  "one p = Rep p 1 (Some 1)"

text \<open>\<open>r"\{.*\}"\<close> with \<open>re.DOTALL\<close>, and \<open>r"\{[\s\S]*\}"\<close>, which is the same pattern.\<close>

definition brace_block :: "ritem list" where
  "brace_block = [one (\<lambda>c. c = CHR ''{''), Rep (\<lambda>c. True) 0 None, one (\<lambda>c. c = CHR ''}'')]"

text \<open>\<open>r"\b(\d[\d\s]{9,})\b"\<close>; its group 1 is the whole match.\<close>

definition digit_run :: "ritem list" where
  "digit_run =
     [WordBoundary, one is_digit, Rep (\<lambda>c. is_digit c \<or> is_space c) 9 None, WordBoundary]"


section \<open>Python operations on decoded values\<close>

datatype pyexc =
    ConnectError string
  | JSONDecodeError
  | TypeError
  | AttributeError
  | KeyError
  | IndexError
  | ValueError

text \<open>Sequencing of steps that may raise.\<close>

definition bind :: "pyexc + 'a \<Rightarrow> ('a \<Rightarrow> pyexc + 'b) \<Rightarrow> pyexc + 'b" where
  "bind x f = (case x of Inl e \<Rightarrow> Inl e | Inr v \<Rightarrow> f v)"

text \<open>\<open>k in x\<close> for a string \<open>k\<close>.\<close>

fun py_in :: "string \<Rightarrow> json \<Rightarrow> pyexc + bool" where
  "py_in k (JObj m) = Inr (map_of m k \<noteq> None)"
| "py_in k (JArr xs) = Inr (JStr k \<in> set xs)"
| "py_in k (JStr s) = Inr (contains k s)"
| "py_in k x = Inl TypeError"

text \<open>\<open>x[k]\<close> for a string \<open>k\<close>.\<close>

fun py_getitem :: "json \<Rightarrow> string \<Rightarrow> pyexc + json" where
  "py_getitem (JObj m) k = (case map_of m k of None \<Rightarrow> Inl KeyError | Some v \<Rightarrow> Inr v)"
| "py_getitem x k = Inl TypeError"

text \<open>\<open>x[k] = v\<close> for a string \<open>k\<close>.\<close>

fun py_setitem :: "json \<Rightarrow> string \<Rightarrow> json \<Rightarrow> pyexc + json" where
  "py_setitem (JObj m) k v = Inr (JObj (AList.update k v m))"
| "py_setitem x k v = Inl TypeError"

text \<open>\<open>len(x)\<close>.\<close>

fun py_len :: "json \<Rightarrow> pyexc + nat" where
  "py_len (JObj m) = Inr (length m)"
| "py_len (JArr xs) = Inr (length xs)"
| "py_len (JStr s) = Inr (length s)"
| "py_len x = Inl TypeError"

text \<open>\<open>x[0]\<close>.\<close>

fun py_first :: "json \<Rightarrow> pyexc + json" where
  "py_first (JArr []) = Inl IndexError"
| "py_first (JArr (x # xs)) = Inr x"
| "py_first (JStr []) = Inl IndexError"
| "py_first (JStr (c # cs)) = Inr (JStr [c])"
| "py_first (JObj m) = Inl KeyError"
| "py_first x = Inl TypeError"

text \<open>\<open>x.get(k, d)\<close>.\<close>

fun py_get :: "json \<Rightarrow> string \<Rightarrow> json \<Rightarrow> pyexc + json" where
  "py_get (JObj m) k d = Inr (case map_of m k of None \<Rightarrow> d | Some v \<Rightarrow> v)"
| "py_get x k d = Inl AttributeError"

text \<open>
  The truth value of \<open>x\<close> in a condition. A float is false when it is zero: every digit
  of its mantissa is 0 (a literal so small that it rounds to zero is not modelled).
\<close>

definition float_nonzero :: "string \<Rightarrow> bool" where
  "float_nonzero lit =
     (\<exists>c \<in> set (takeWhile (\<lambda>c. c \<noteq> CHR ''e'' \<and> c \<noteq> CHR ''E'') lit). c \<noteq> CHR ''0'' \<and> is_word c)"

fun truthy :: "json \<Rightarrow> bool" where
  "truthy JNull = False"
| "truthy (JBool b) = b"
| "truthy (JInt n) = (n \<noteq> 0)"
| "truthy (JFloat lit) = float_nonzero lit"
| "truthy (JStr s) = (s \<noteq> [])"
| "truthy (JArr xs) = (xs \<noteq> [])"
| "truthy (JObj m) = (m \<noteq> [])"

section \<open>The generation endpoint\<close>

text \<open>
  What \<open>client.post\<close> gives back inside \<open>httpx.AsyncClient(timeout=...)\<close>: either it
  raises (no connection, a transport failure, the timeout), or it returns a response with
  a status code and a body. \<open>body_json\<close> is what \<open>response.json()\<close> returns, \<open>None\<close>
  when the body is not JSON and the call raises. The prompt and the payload are built
  from the arguments and sent; they do not enter what is computed from the response.
\<close>

datatype http_result =
    RequestFailed string
  | Response (status_code: nat) (body_json: "json option")

text \<open>\<open>Exception(f"Ollama API error: {str(e)}")\<close>, with the exception \<open>e\<close> it wraps.\<close>

datatype error = OllamaAPIError pyexc

type_synonym field_specs = "(string \<times> (string \<times> string) list) list"

section \<open>Revision 20251213020545 of \<open>parse_fields\<close>, the latest\<close>

text \<open>Lines 56 to 61: the reply text in the envelope.\<close>

definition result_text_of :: "json \<Rightarrow> pyexc + json" where
  "result_text_of env =
     bind (py_in ''response'' env) (\<lambda>has_response.
       if has_response then py_getitem env ''response''
       else
         bind (py_in ''data'' env) (\<lambda>has_data.
           if has_data then
             bind (py_getitem env ''data'') (\<lambda>d.
               bind (py_len d) (\<lambda>n.
                 if n > 0 then bind (py_first d) (\<lambda>x. py_get x ''response'' (JStr []))
                 else Inr (JStr [])))
           else Inr (JStr [])))"

text \<open>
  Lines 63 to 74: the reply parsed whole, else the widest block in braces, else \<open>{}\<close>.
  For a reply that is no string \<open>json.loads\<close> raises \<open>TypeError\<close>, which the
  handler takes, and then \<open>re.search\<close> raises it again, outside any handler.
\<close>

fun recover :: "json \<Rightarrow> pyexc + json" where
  "recover (JStr result_text) =
     (case loads result_text of
        Some result \<Rightarrow> Inr result
      | None \<Rightarrow>
          (case re_search brace_block result_text of
             Some json_match \<Rightarrow>
               (case loads json_match of
                  Some result \<Rightarrow> Inr result
                | None \<Rightarrow> Inr (JObj []))
           | None \<Rightarrow> Inr (JObj [])))"
| "recover x = Inl TypeError"

text \<open>
  \<open>int(str(v).replace(" ", "").strip())\<close> for a decoded value \<open>v\<close>, \<open>None\<close> for
  \<open>ValueError\<close>. The text of an int is its numeral, which reads back as the same int;
  the text of a bool, a float, a list or a dict has a letter, a point or a bracket in it,
  and is no integer.
\<close>

fun int_of_cleaned :: "json \<Rightarrow> int option" where
  "int_of_cleaned (JStr s) = py_int (strip (remove_spaces s))"
| "int_of_cleaned (JInt n) = Some n"
| "int_of_cleaned v = None"

text \<open>Lines 76 to 90: the key \<open>vergi_no\<close> cleaned, or looked for in the document.\<close>

definition clean_vergi_no :: "string \<Rightarrow> json \<Rightarrow> pyexc + json" where
  "clean_vergi_no raw_text result =
     bind (py_in ''vergi_no'' result) (\<lambda>present.
       bind (if present then bind (py_getitem result ''vergi_no'') (\<lambda>v. Inr (truthy v))
             else Inr False) (\<lambda>found.
         if found then
           bind (py_getitem result ''vergi_no'') (\<lambda>v.
             py_setitem result ''vergi_no''
               (case int_of_cleaned v of Some n \<Rightarrow> JInt n | None \<Rightarrow> JNull))
         else
           (case re_search digit_run raw_text of
              Some vergi_no \<Rightarrow>
                (case py_int (remove_spaces vergi_no) of
                   Some n \<Rightarrow> py_setitem result ''vergi_no'' (JInt n)
                 | None \<Rightarrow> Inl ValueError)
            | None \<Rightarrow> py_setitem result ''vergi_no'' JNull)))"

definition process_response :: "string \<Rightarrow> json \<Rightarrow> pyexc + json" where
  "process_response raw_text env =
     bind (result_text_of env) (\<lambda>result_text.
       bind (recover result_text) (clean_vergi_no raw_text))"

text \<open>
  The whole of \<open>parse_fields\<close>: every exception raised in the \<open>try\<close> block is wrapped
  by the handler of lines 94 and 95. The status code of the response is not looked at.
\<close>

definition parse_fields :: "http_result \<Rightarrow> string \<Rightarrow> field_specs \<Rightarrow> error + json" where
  "parse_fields http raw_text fields =
     (case http of
        RequestFailed cause \<Rightarrow> Inl (OllamaAPIError (ConnectError cause))
      | Response status body \<Rightarrow>
          (case body of
             None \<Rightarrow> Inl (OllamaAPIError JSONDecodeError)
           | Some env \<Rightarrow>
               (case process_response raw_text env of
                  Inl e \<Rightarrow> Inl (OllamaAPIError e)
                | Inr result \<Rightarrow> Inr result)))"

text \<open>A response of the endpoint whose envelope holds the reply \<open>r\<close> of the model.\<close>

definition reply :: "string \<Rightarrow> http_result" where
  "reply r = Response 200 (Some (JObj [(''response'', JStr r)]))"

section \<open>Revision 20251212223536 of \<open>parse_fields\<close>\<close>













section \<open>Inputs used in the examples\<close>

text \<open>The field of the scenarios of the specification:
  \<open>{"taxId": {"name": "Tax ID", "type": "integer"}}\<close>.\<close>

definition tax_id_field :: field_specs where
  "tax_id_field = [(''taxId'', [(''name'', ''Tax ID''), (''type'', ''integer'')])]"


section \<open>The key \<open>vergi_no\<close> in the latest revision\<close>

lemma setitem_obj: "py_setitem result k v = Inr r \<Longrightarrow> \<exists>m. r = JObj m \<and> map_of m k = Some v"
  by (cases result) (auto simp: update_conv')

lemma clean_vergi_no_result:
  assumes "clean_vergi_no raw_text result = Inr r"
  shows "\<exists>m. r = JObj m \<and>
    (map_of m ''vergi_no'' = Some JNull \<or> (\<exists>n. map_of m ''vergi_no'' = Some (JInt n)))"
  using assms unfolding clean_vergi_no_def bind_def
  by (auto split: sum.splits if_splits option.splits dest!: setitem_obj)

text \<open>
  C10. In the latest revision, whenever \<open>parse_fields\<close> returns without an error, what it
  returns is a dict that has the key \<open>vergi_no\<close>, holding an integer or \<open>None\<close>. The
  declared fields play no part: the statement holds for every \<open>fields\<close>.
\<close>

theorem vergi_no_always_present:
  assumes "parse_fields http raw_text fields = Inr r"
  shows "\<exists>m. r = JObj m \<and>
    (map_of m ''vergi_no'' = Some JNull \<or> (\<exists>n. map_of m ''vergi_no'' = Some (JInt n)))"
proof -
  from assms obtain result where "clean_vergi_no raw_text result = Inr r"
    unfolding parse_fields_def process_response_def bind_def
    by (auto split: http_result.splits option.splits sum.splits)
  then show ?thesis by (rule clean_vergi_no_result)
qed

lemma no_number_example:
  "parse_fields (reply ''I cannot'') ''no number here'' tax_id_field
     = Inr (JObj [(''vergi_no'', JNull)])"
  by code_simp

text \<open>Witness for C10: the only declared field is \<open>taxId\<close>, and the record has
  \<open>vergi_no\<close> and no \<open>taxId\<close>.\<close>

theorem vergi_no_always_present_witness:
  "\<exists>m. parse_fields (reply ''I cannot'') ''no number here'' tax_id_field = Inr (JObj m)
     \<and> map_of m ''taxId'' = None
     \<and> (map_of m ''vergi_no'' = Some JNull \<or> (\<exists>n. map_of m ''vergi_no'' = Some (JInt n)))"
  using vergi_no_always_present [OF no_number_example] no_number_example by simp

section \<open>Failures of the request\<close>

text \<open>
  Counterexample to C4: the endpoint answers with status 500 and a JSON body that
  reports an error. \<open>parse_fields\<close> does not fail: it returns a record.
\<close>

theorem status_not_checked_counterexample:
  "parse_fields (Response 500 (Some (JObj [(''error'', JStr ''model not found'')])))
     ''VERGI NO: 1234567890'' tax_id_field = Inr (JObj [(''vergi_no'', JInt 1234567890)])"
  by code_simp

text \<open>
  C4, amended. When the request itself fails (no connection, a transport failure, the
  timeout), \<open>parse_fields\<close> fails with the wrapped error that carries the cause, and
  returns no record. The status code of a response is not looked at: a response with any
  status is handled as the response with status 200 and the same body.
\<close>

theorem request_failure_is_wrapped:
  "parse_fields (RequestFailed cause) raw_text fields = Inl (OllamaAPIError (ConnectError cause))
   \<and> parse_fields (Response status body) raw_text fields
       = parse_fields (Response 200 body) raw_text fields"
  by (simp add: parse_fields_def)

section \<open>Errors that are no communication errors\<close>

text \<open>
  C2 at two failing inputs. The document has a tax number at the end of a line and
  digits at the start of the next: the match of the fallback pattern spans the line
  break, \<open>int\<close> raises \<open>ValueError\<close> outside any handler of its own, and the caller gets
  the wrapped error. The reply is valid JSON but no object: \<open>TypeError\<close>, wrapped too.
\<close>

theorem fallback_int_raises:
  "parse_fields (reply ''I cannot'') (''1234567890'' @ [CHR 0x0A] @ ''12.05.2020'') tax_id_field
     = Inl (OllamaAPIError ValueError)
   \<and> parse_fields (reply ''[]'') ''no number here'' tax_id_field = Inl (OllamaAPIError TypeError)"
  by code_simp

section \<open>The reply text in the envelope\<close>



section \<open>Coercion by declared type, in revision 20251212223536\<close>












section \<open>The keys of the record\<close>









section \<open>When the fallback runs\<close>





end
